theory Spec2Isabelle
  imports Main "HOL-Library.Word"
begin

unbundle bit_operations_syntax

section \<open>libulcd43: the protocol layer of \<^verbatim>\<open>src/util.c\<close>\<close>

text \<open>
  A shallow embedding of \<^verbatim>\<open>util.c\<close>: the parameter encoder (\<^verbatim>\<open>pack_uint\<close>,
  \<^verbatim>\<open>unpack_uint\<close>, \<^verbatim>\<open>pack_uints\<close>), the error setter \<^verbatim>\<open>ulcd_error\<close> and the
  exchange functions \<^verbatim>\<open>ulcd_send\<close>, \<^verbatim>\<open>ulcd_recv_ack\<close>, \<^verbatim>\<open>ulcd_send_recv_ack\<close>,
  \<^verbatim>\<open>ulcd_send_recv_ack_data\<close> and \<^verbatim>\<open>ulcd_send_recv_ack_word\<close>.

  C objects are modelled as follows.
  \<^item> A \<^verbatim>\<open>char\<close> is an 8-bit word; memory is a store from addresses to bytes and a
    \<^verbatim>\<open>char *\<close> is an address. The functions get no buffer length from their callers, so
    the store is total: keeping a pointer inside its buffer is the caller's duty in C.
  \<^item> \<^verbatim>\<open>int\<close> values are mathematical integers; \<^verbatim>\<open>size_t\<close> values are 64-bit words, so
    that the conversions of \<^verbatim>\<open>ssize_t\<close> and \<^verbatim>\<open>int\<close> values to \<^verbatim>\<open>size_t\<close> and the unsigned
    comparison and addition of the transfer loops are those of the machine.
  \<^item> The header \<^verbatim>\<open>ulcd43.h\<close> is not among the sources. The type \<^verbatim>\<open>param_t\<close> and the
    bytes \<^verbatim>\<open>ACK\<close> and \<^verbatim>\<open>NAK\<close> are taken from the specification; the macros \<^verbatim>\<open>ERROK\<close>,
    \<^verbatim>\<open>ERRNAK\<close>, \<^verbatim>\<open>ERRUNKNOWN\<close> and \<^verbatim>\<open>STRBUFSIZE\<close>, whose values the specification does
    not give, are parameters of the model.
\<close>

subsection \<open>Bytes, parameters and memory\<close>

type_synonym byte = "8 word"

text \<open>
  Modelled from the spec: \<^verbatim>\<open>param_t\<close> is declared in \<^verbatim>\<open>ulcd43.h\<close>; the specification
  (section 3) calls a parameter a 16-bit unsigned quantity.
\<close>

type_synonym param_t = "16 word"

type_synonym ptr = nat

type_synonym mem = "ptr \<Rightarrow> byte"

text \<open>Reading \<open>n\<close> bytes from address \<open>p\<close>, and writing a list of bytes at \<open>p\<close>.\<close>

definition peek :: "mem \<Rightarrow> ptr \<Rightarrow> nat \<Rightarrow> byte list" where
  "peek m p n = map m [p ..< p + n]"

fun store :: "mem \<Rightarrow> ptr \<Rightarrow> byte list \<Rightarrow> mem" where
  "store m p [] = m"
| "store m p (b # bs) = store (m(p := b)) (Suc p) bs"

subsection \<open>The encoder\<close>

text \<open>
  \<^verbatim>\<open>
  inline int pack_uint(char *dest, param_t src)
  {
      dest[0] = (src & 0xff00) >> 8;
      dest[1] = (src & 0x00ff);
      return 2;
  }
  \<close>
  \<open>src\<close> is promoted to a 32-bit \<^verbatim>\<open>int\<close> before the mask and the shift; the assignment
  to a \<^verbatim>\<open>char\<close> keeps the low eight bits.
\<close>

definition pack_uint :: "mem \<Rightarrow> ptr \<Rightarrow> param_t \<Rightarrow> mem \<times> int" where
  "pack_uint m dest src =
     (let m1 = m(dest := ucast (drop_bit 8 ((ucast src :: 32 word) AND 0xff00)));
          m2 = m1(dest + 1 := ucast ((ucast src :: 32 word) AND 0x00ff))
      in (m2, 2))"

text \<open>
  \<^verbatim>\<open>
  inline void unpack_uint(param_t *dest, const char *src)
  {
      *dest = ((src[0] << 8) & 0xff00) | (src[1] & 0x00ff);
  }
  \<close>
  The result is the value stored in \<^verbatim>\<open>*dest\<close>. Each \<^verbatim>\<open>char\<close> is promoted to \<^verbatim>\<open>int\<close> with
  its sign (plain \<^verbatim>\<open>char\<close> is signed on the Linux targets the baud table names); the masks
  remove the sign bits again, see \<open>unpack_uint_sign_free\<close>.
\<close>

definition unpack_uint :: "mem \<Rightarrow> ptr \<Rightarrow> param_t" where
  "unpack_uint m src =
     ucast ((push_bit 8 (scast (m src) :: 32 word) AND 0xff00) OR
            ((scast (m (src + 1)) :: 32 word) AND 0x00ff))"

text \<open>
  \<^verbatim>\<open>
  inline int pack_uints(char *buffer, int args, ...)
  {
      int i;
      va_list lst;
      va_start(lst, args);
      for (i = 0; i < args; i++) {
          pack_uint(buffer, va_arg(lst, param_t));
          buffer += 2;
      }
      va_end(lst);
      return args * 2;
  }
  \<close>
  The variable arguments are a list; \<^verbatim>\<open>va_arg\<close> takes its head. Taking an argument
  that the caller did not pass is undefined in C: the model returns \<open>None\<close> there.
  \<open>args\<close> counts the arguments of one call, so \<open>args * 2\<close> stays far below the range
  of \<^verbatim>\<open>int\<close>.
\<close>

function pack_uints_loop :: "mem \<Rightarrow> ptr \<Rightarrow> int \<Rightarrow> int \<Rightarrow> param_t list \<Rightarrow> mem option" where
  "pack_uints_loop m buffer i args lst =
     (if i < args then
        (case lst of
           [] \<Rightarrow> None
         | v # rest \<Rightarrow> pack_uints_loop (fst (pack_uint m buffer v)) (buffer + 2) (i + 1) args rest)
      else Some m)"
  by pat_completeness auto
termination
  by (relation "measure (\<lambda>(m, buffer, i, args, lst). nat (args - i))") auto

declare pack_uints_loop.simps [simp del]

definition pack_uints :: "mem \<Rightarrow> ptr \<Rightarrow> int \<Rightarrow> param_t list \<Rightarrow> (mem \<times> int) option" where
  "pack_uints m buffer args lst =
     (case pack_uints_loop m buffer 0 args lst of
        None \<Rightarrow> None
      | Some m' \<Rightarrow> Some (m', args * 2))"

text \<open>The two bytes that \<open>pack_uint\<close> writes for a parameter, read back from memory.\<close>

definition packed :: "param_t \<Rightarrow> byte list" where
  "packed v = peek (fst (pack_uint (\<lambda>_. 0) 0 v)) 0 2"

subsection \<open>What \<^verbatim>\<open>util.c\<close> takes from outside\<close>

text \<open>
  The error codes \<^verbatim>\<open>ERROK\<close>, \<^verbatim>\<open>ERRNAK\<close> and \<^verbatim>\<open>ERRUNKNOWN\<close> and the buffer size
  \<^verbatim>\<open>STRBUFSIZE\<close> are macros of the absent header, and \<^verbatim>\<open>strerror\<close> is the C library's:
  every function below takes them as the parameter \<open>X\<close>. A property that needs
  \<^verbatim>\<open>ERROK\<close> to be zero, as the tests \<^verbatim>\<open>if (ulcd_send(...))\<close> of the source do, says so.
\<close>

record externals =
  ERROK :: int
  ERRNAK :: int
  ERRUNKNOWN :: int
  STRBUFSIZE :: nat
  strerror :: "int \<Rightarrow> string"

text \<open>
  Modelled from the spec: \<^verbatim>\<open>ACK\<close> and \<^verbatim>\<open>NAK\<close> are macros of \<^verbatim>\<open>ulcd43.h\<close>; the
  specification (section 6) gives the reply bytes as ACK \<^verbatim>\<open>0x06\<close> and NAK \<^verbatim>\<open>0x15\<close>.
\<close>

definition ACK :: byte where
  "ACK = 0x06"

definition NAK :: byte where
  "NAK = 0x15"

text \<open>
  The handle \<^verbatim>\<open>struct ulcd_t\<close>, with the fields that \<^verbatim>\<open>util.c\<close> uses. \<open>err\<close> holds the
  C string in the array \<^verbatim>\<open>err\<close>: the characters before the terminating NUL.
\<close>

record ulcd_t =
  fd :: int
  device :: string
  baudrate :: nat
  error :: int
  err :: string

subsection \<open>The operating system and the device\<close>

text \<open>
  The serial line is scripted. Each call of \<^verbatim>\<open>open\<close>, \<^verbatim>\<open>write\<close> and \<^verbatim>\<open>read\<close> takes the
  next outcome of its script: \<open>Fails e\<close> makes the call return \<open>-1\<close> with \<^verbatim>\<open>errno\<close> set
  to \<open>e\<close>; \<open>Gives n\<close> makes \<^verbatim>\<open>open\<close> return the descriptor \<open>n\<close>, and makes \<^verbatim>\<open>write\<close> and
  \<^verbatim>\<open>read\<close> transfer at most \<open>n\<close> bytes (never more than requested, and for \<^verbatim>\<open>read\<close> never
  more than the device has sent). A call on an exhausted script never returns
  (the line is configured to block): the result is \<open>None\<close>. \<open>wire\<close> collects the bytes
  written to the device, \<open>pending\<close> holds the bytes the device sends that have not been
  read yet.
\<close>

datatype 'a outcome = Fails int | Gives 'a

record world =
  errno :: int
  opens :: "int outcome list"
  writes :: "nat outcome list"
  reads :: "nat outcome list"
  wire :: "byte list"
  pending :: "byte list"

definition sys_open :: "world \<Rightarrow> (int \<times> world) option" where
  "sys_open w =
     (case opens w of
        [] \<Rightarrow> None
      | Fails e # os \<Rightarrow> Some (- 1, w\<lparr>errno := e, opens := os\<rparr>)
      | Gives f # os \<Rightarrow> Some (f, w\<lparr>opens := os\<rparr>))"

text \<open>
  \<^verbatim>\<open>write(fd, buf, count)\<close>. The result is the \<^verbatim>\<open>ssize_t\<close> return value as the 64 bits that
  the callers store in a \<^verbatim>\<open>size_t\<close>: \<open>-1\<close> is the word of all ones.
\<close>

definition sys_write :: "world \<Rightarrow> mem \<Rightarrow> ptr \<Rightarrow> 64 word \<Rightarrow> (64 word \<times> world) option" where
  "sys_write w m buf count =
     (case writes w of
        [] \<Rightarrow> None
      | Fails e # os \<Rightarrow> Some (- 1, w\<lparr>errno := e, writes := os\<rparr>)
      | Gives n # os \<Rightarrow>
          (let k = min n (unat count)
           in Some (of_nat k, w\<lparr>writes := os, wire := wire w @ peek m buf k\<rparr>)))"

text \<open>
  \<^verbatim>\<open>read(fd, buf, count)\<close>: the return value and the bytes delivered, which the caller
  stores at \<open>buf\<close>.
\<close>

definition sys_read :: "world \<Rightarrow> 64 word \<Rightarrow> (64 word \<times> byte list \<times> world) option" where
  "sys_read w count =
     (case reads w of
        [] \<Rightarrow> None
      | Fails e # os \<Rightarrow> Some (- 1, [], w\<lparr>errno := e, reads := os\<rparr>)
      | Gives n # os \<Rightarrow>
          (let k = min (min n (unat count)) (length (pending w))
           in Some (of_nat k, take k (pending w),
                    w\<lparr>reads := os, pending := drop k (pending w)\<rparr>)))"

text \<open>
  The output of \<^verbatim>\<open>printf\<close>-style formatting for the directives that \<^verbatim>\<open>util.c\<close> uses:
  \<^verbatim>\<open>%s\<close> takes the next string argument (nothing, if the caller passed none),
  \<^verbatim>\<open>%%\<close> is a percent sign, every other character stands for itself.
\<close>

fun vformat :: "string \<Rightarrow> string list \<Rightarrow> string" where
  "vformat [] args = []"
| "vformat [c] args = [c]"
| "vformat (c # d # cs) args =
     (if c = CHR ''%'' \<and> d = CHR ''s'' then
        (case args of [] \<Rightarrow> vformat cs [] | a # as \<Rightarrow> a @ vformat cs as)
      else if c = CHR ''%'' \<and> d = CHR ''%'' then CHR ''%'' # vformat cs args
      else c # vformat (d # cs) args)"

subsection \<open>Error reporting\<close>

text \<open>
  \<^verbatim>\<open>
  int ulcd_error(struct ulcd_t *ulcd, int error, const char *err, ...)
  {
      va_list args;
      ulcd->error = error;
      if (err == NULL) {
          ulcd->err[0] = '\0';
      } else {
          va_start(args, err);
          vsnprintf(ulcd->err, STRBUFSIZE, err, args);
          va_end(args);
      }
      return error;
  }
  \<close>
  The parameters \<^verbatim>\<open>error\<close> and \<^verbatim>\<open>err\<close> are \<open>code\<close> and \<open>msg\<close> here (the fields of the
  handle have their names): \<open>msg\<close> is \<open>None\<close> for \<^verbatim>\<open>NULL\<close>, and else the format with its
  arguments. \<^verbatim>\<open>vsnprintf\<close> with size \<open>n\<close> stores at most \<open>n - 1\<close> characters and the
  terminating NUL, and nothing at all when \<open>n\<close> is zero.
\<close>

definition ulcd_error ::
  "externals \<Rightarrow> ulcd_t \<Rightarrow> int \<Rightarrow> (string \<times> string list) option \<Rightarrow> int \<times> ulcd_t" where
  "ulcd_error X ulcd code msg =
     (let u1 = ulcd\<lparr>error := code\<rparr>;
          u2 = (case msg of
                  None \<Rightarrow> u1\<lparr>err := []\<rparr>
                | Some (fmt, args) \<Rightarrow>
                    if STRBUFSIZE X = 0 then u1
                    else u1\<lparr>err := take (STRBUFSIZE X - 1) (vformat fmt args)\<rparr>)
      in (code, u2))"

subsection \<open>Opening the device\<close>

text \<open>
  \<^verbatim>\<open>
  int ulcd_open_serial_device(struct ulcd_t *ulcd)
  {
      ulcd->fd = open(ulcd->device, O_RDWR | O_NOCTTY);
      if (ulcd->fd == -1) {
          return ulcd_error(ulcd, errno, "Unable to open serial device: %s", strerror(errno));
      } else {
          fcntl(ulcd->fd, F_SETFL, 0);
      }
      return ERROK;
  }
  \<close>
\<close>

definition ulcd_open_serial_device ::
  "externals \<Rightarrow> world \<Rightarrow> ulcd_t \<Rightarrow> (int \<times> world \<times> ulcd_t) option" where
  "ulcd_open_serial_device X w ulcd =
     (case sys_open w of
        None \<Rightarrow> None
      | Some (f, w') \<Rightarrow>
          (let u1 = ulcd\<lparr>fd := f\<rparr>
           in if fd u1 = - 1 then
                (let (r, u2) = ulcd_error X u1 (errno w')
                       (Some (''Unable to open serial device: %s'', [strerror X (errno w')]))
                 in Some (r, w', u2))
              else Some (ERROK X, w', u1)))"

subsection \<open>The exchange\<close>

text \<open>
  \<^verbatim>\<open>
  int ulcd_send(struct ulcd_t *ulcd, const char *data, int size)
  {
      size_t total = 0;
      size_t sent;
      while (total < size) {
          sent = write(ulcd->fd, data+total, size-total);
          if (sent < 0) {
              return ulcd_error(ulcd, errno, "Unable to send data to device: %s", strerror(errno));
          }
          total += sent;
      }
      return ERROK;
  }
  \<close>
  \<^verbatim>\<open>size\<close> and \<^verbatim>\<open>total\<close> are \<open>sz\<close> and \<open>tot\<close> here. \<open>tot\<close> and \<open>sent\<close> are \<^verbatim>\<open>size_t\<close>: in
  \<^verbatim>\<open>total < size\<close> and \<^verbatim>\<open>size-total\<close> the \<^verbatim>\<open>int\<close> is converted to \<^verbatim>\<open>size_t\<close>, and
  \<^verbatim>\<open>sent < 0\<close> compares unsigned words. The loop is the recursion \<open>ulcd_send_loop\<close>;
  every call of \<^verbatim>\<open>write\<close> takes one outcome of the script, which bounds the recursion.
\<close>

function ulcd_send_loop ::
  "externals \<Rightarrow> world \<Rightarrow> ulcd_t \<Rightarrow> mem \<Rightarrow> ptr \<Rightarrow> int \<Rightarrow> 64 word \<Rightarrow> (int \<times> world \<times> ulcd_t) option" where
  "ulcd_send_loop X w ulcd m data sz tot =
     (if tot < word_of_int sz then
        (case sys_write w m (data + unat tot) (word_of_int sz - tot) of
           None \<Rightarrow> None
         | Some (sent, w') \<Rightarrow>
             if sent < 0 then
               (let (r, u') = ulcd_error X ulcd (errno w')
                      (Some (''Unable to send data to device: %s'', [strerror X (errno w')]))
                in Some (r, w', u'))
             else ulcd_send_loop X w' ulcd m data sz (tot + sent))
      else Some (ERROK X, w, ulcd))"
  by pat_completeness auto
termination
  by (relation "measure (\<lambda>(X, w, ulcd, m, data, sz, tot). length (writes w))")
     (auto simp: sys_write_def Let_def split: list.splits outcome.splits)

declare ulcd_send_loop.simps [simp del]

definition ulcd_send ::
  "externals \<Rightarrow> world \<Rightarrow> ulcd_t \<Rightarrow> mem \<Rightarrow> ptr \<Rightarrow> int \<Rightarrow> (int \<times> world \<times> ulcd_t) option" where
  "ulcd_send X w ulcd m data sz = ulcd_send_loop X w ulcd m data sz 0"

text \<open>
  \<^verbatim>\<open>
  int ulcd_recv_ack(struct ulcd_t *ulcd)
  {
      char r;
      size_t bytes_read;
      bytes_read = read(ulcd->fd, &r, 1);
      if (r == ACK) {
          return ERROK;
      } else if (r == NAK) {
          return ulcd_error(ulcd, ERRNAK, "Device sent NAK instead of ACK");
      }
      return ulcd_error(ulcd, ERRUNKNOWN, "Device sent unknown reply instead of ACK");
  }
  \<close>
  The local \<^verbatim>\<open>r\<close> is not initialised: \<open>r0\<close> is the value it happens to hold before the
  read, and it keeps that value when the read delivers no byte.
\<close>

definition ulcd_recv_ack ::
  "externals \<Rightarrow> world \<Rightarrow> ulcd_t \<Rightarrow> byte \<Rightarrow> (int \<times> world \<times> ulcd_t) option" where
  "ulcd_recv_ack X w ulcd r0 =
     (case sys_read w 1 of
        None \<Rightarrow> None
      | Some (bytes_read, bs, w') \<Rightarrow>
          (let r = (case bs of [] \<Rightarrow> r0 | b # _ \<Rightarrow> b)
           in if r = ACK then Some (ERROK X, w', ulcd)
              else if r = NAK then
                (let (c, u') = ulcd_error X ulcd (ERRNAK X)
                       (Some (''Device sent NAK instead of ACK'', []))
                 in Some (c, w', u'))
              else
                (let (c, u') = ulcd_error X ulcd (ERRUNKNOWN X)
                       (Some (''Device sent unknown reply instead of ACK'', []))
                 in Some (c, w', u'))))"

text \<open>
  \<^verbatim>\<open>
  int ulcd_send_recv_ack(struct ulcd_t *ulcd, const char *data, int size)
  {
      if (ulcd_send(ulcd, data, size)) {
          return ulcd->error;
      }
      if (ulcd_recv_ack(ulcd)) {
          return ulcd->error;
      }
      return ERROK;
  }
  \<close>
\<close>

definition ulcd_send_recv_ack ::
  "externals \<Rightarrow> world \<Rightarrow> ulcd_t \<Rightarrow> mem \<Rightarrow> ptr \<Rightarrow> int \<Rightarrow> byte \<Rightarrow> (int \<times> world \<times> ulcd_t) option" where
  "ulcd_send_recv_ack X w ulcd m data sz r0 =
     (case ulcd_send X w ulcd m data sz of
        None \<Rightarrow> None
      | Some (rs, w1, u1) \<Rightarrow>
          if rs \<noteq> 0 then Some (error u1, w1, u1)
          else
            (case ulcd_recv_ack X w1 u1 r0 of
               None \<Rightarrow> None
             | Some (ra, w2, u2) \<Rightarrow>
                 if ra \<noteq> 0 then Some (error u2, w2, u2)
                 else Some (ERROK X, w2, u2)))"

text \<open>
  \<^verbatim>\<open>
  int ulcd_send_recv_ack_data(struct ulcd_t *ulcd, const char *data, int size,
                              void *buffer, int datasize)
  {
      size_t bytes_read;
      size_t total = 0;
      if (ulcd_send_recv_ack(ulcd, data, size)) {
          return ulcd->error;
      }
      while(total < datasize) {
          bytes_read = read(ulcd->fd, buffer+total, datasize-total);
          if (bytes_read < 0) {
              return ulcd_error(ulcd, errno, "Unable to read data from device: %s", strerror(errno));
          }
          total += bytes_read;
      }
      return ERROK;
  }
  \<close>
  The function returns its code and the memory with the bytes read stored in it.
\<close>

function ulcd_recv_data_loop ::
  "externals \<Rightarrow> world \<Rightarrow> ulcd_t \<Rightarrow> mem \<Rightarrow> ptr \<Rightarrow> int \<Rightarrow> 64 word \<Rightarrow>
   (int \<times> world \<times> ulcd_t \<times> mem) option" where
  "ulcd_recv_data_loop X w ulcd m buffer datasize tot =
     (if tot < word_of_int datasize then
        (case sys_read w (word_of_int datasize - tot) of
           None \<Rightarrow> None
         | Some (bytes_read, bs, w') \<Rightarrow>
             if bytes_read < 0 then
               (let (r, u') = ulcd_error X ulcd (errno w')
                      (Some (''Unable to read data from device: %s'', [strerror X (errno w')]))
                in Some (r, w', u', store m (buffer + unat tot) bs))
             else ulcd_recv_data_loop X w' ulcd (store m (buffer + unat tot) bs) buffer datasize
                    (tot + bytes_read))
      else Some (ERROK X, w, ulcd, m))"
  by pat_completeness auto
termination
  by (relation "measure (\<lambda>(X, w, ulcd, m, buffer, datasize, tot). length (reads w))")
     (auto simp: sys_read_def Let_def split: list.splits outcome.splits)

declare ulcd_recv_data_loop.simps [simp del]

definition ulcd_send_recv_ack_data ::
  "externals \<Rightarrow> world \<Rightarrow> ulcd_t \<Rightarrow> mem \<Rightarrow> ptr \<Rightarrow> int \<Rightarrow> ptr \<Rightarrow> int \<Rightarrow> byte \<Rightarrow>
   (int \<times> world \<times> ulcd_t \<times> mem) option" where
  "ulcd_send_recv_ack_data X w ulcd m data sz buffer datasize r0 =
     (case ulcd_send_recv_ack X w ulcd m data sz r0 of
        None \<Rightarrow> None
      | Some (rx, w1, u1) \<Rightarrow>
          if rx \<noteq> 0 then Some (error u1, w1, u1, m)
          else ulcd_recv_data_loop X w1 u1 m buffer datasize 0)"

text \<open>
  \<^verbatim>\<open>
  int ulcd_send_recv_ack_word(struct ulcd_t *ulcd, const char *data, int size, param_t *param)
  {
      char buffer[2];
      if (ulcd_send_recv_ack_data(ulcd, data, size, buffer, 2)) {
          return -1;
      }
      if (param != NULL) {
          unpack_uint(param, buffer);
      }
      return ERROK;
  }
  \<close>
  \<open>buffer\<close> is the address of the local array. \<open>param\<close> is \<open>None\<close> for \<^verbatim>\<open>NULL\<close> and else
  the value that \<^verbatim>\<open>*param\<close> holds; the function returns the value it holds afterwards.
\<close>

definition ulcd_send_recv_ack_word ::
  "externals \<Rightarrow> world \<Rightarrow> ulcd_t \<Rightarrow> mem \<Rightarrow> ptr \<Rightarrow> int \<Rightarrow> param_t option \<Rightarrow> ptr \<Rightarrow> byte \<Rightarrow>
   (int \<times> world \<times> ulcd_t \<times> param_t option) option" where
  "ulcd_send_recv_ack_word X w ulcd m data sz param buffer r0 =
     (case ulcd_send_recv_ack_data X w ulcd m data sz buffer 2 r0 of
        None \<Rightarrow> None
      | Some (rd, w1, u1, m1) \<Rightarrow>
          if rd \<noteq> 0 then Some (- 1, w1, u1, param)
          else
            (case param of
               None \<Rightarrow> Some (ERROK X, w1, u1, None)
             | Some old \<Rightarrow> Some (ERROK X, w1, u1, Some (unpack_uint m1 buffer))))"

subsection \<open>Notions used in the properties\<close>

text \<open>The code that \<open>ulcd_recv_ack\<close> gives for a reply byte.\<close>

definition ack_code :: "externals \<Rightarrow> byte \<Rightarrow> int" where
  "ack_code X r = (if r = ACK then ERROK X else if r = NAK then ERRNAK X else ERRUNKNOWN X)"

text \<open>
  \<open>reported X ulcd w' u' c\<close>: a call on the handle \<open>ulcd\<close> that returned \<open>c\<close>, leaving the
  handle \<open>u'\<close> and the world \<open>w'\<close>, either returned \<^verbatim>\<open>ERROK\<close> and left the error code
  and message of the handle as they were, or returned the code that the handle now
  holds, which is \<^verbatim>\<open>ERRNAK\<close>, \<^verbatim>\<open>ERRUNKNOWN\<close> or the current \<^verbatim>\<open>errno\<close>.
  \<open>recorded\<close> is the same without the promise that the code returned is the one held.
\<close>

definition reported :: "externals \<Rightarrow> ulcd_t \<Rightarrow> world \<Rightarrow> ulcd_t \<Rightarrow> int \<Rightarrow> bool" where
  "reported X ulcd w' u' c \<longleftrightarrow>
     c = ERROK X \<and> error u' = error ulcd \<and> err u' = err ulcd \<or>
     error u' = c \<and> (c = ERRNAK X \<or> c = ERRUNKNOWN X \<or> c = errno w')"

definition recorded :: "externals \<Rightarrow> ulcd_t \<Rightarrow> world \<Rightarrow> ulcd_t \<Rightarrow> int \<Rightarrow> bool" where
  "recorded X ulcd w' u' c \<longleftrightarrow>
     c = ERROK X \<and> error u' = error ulcd \<and> err u' = err ulcd \<or>
     error u' = ERRNAK X \<or> error u' = ERRUNKNOWN X \<or> error u' = errno w'"

subsection \<open>Sample values\<close>

text \<open>
  Concrete inputs for the examples: one choice of values for the macros of the absent
  header, a handle with no error, a quiet line, a three-byte command at address 0, and
  a line that refuses to open, takes the command in one write and sends ACK followed by
  the word \<^verbatim>\<open>0x1234\<close>.
\<close>

definition ex_externals :: externals where
  "ex_externals = \<lparr>ERROK = 0, ERRNAK = 1, ERRUNKNOWN = 2, STRBUFSIZE = 64,
     strerror = (\<lambda>e. ''Input/output error'')\<rparr>"

definition ex_ulcd :: ulcd_t where
  "ex_ulcd = \<lparr>fd = 3, device = ''/dev/ttyUSB0'', baudrate = 13, error = 0, err = []\<rparr>"

definition ex_world :: world where
  "ex_world = \<lparr>errno = 0, opens = [], writes = [], reads = [], wire = [], pending = []\<rparr>"

definition ex_mem :: mem where
  "ex_mem = store (\<lambda>_. 0) 0 [0x10, 0x20, 0x30]"

definition ex_line :: world where
  "ex_line = ex_world\<lparr>opens := [Fails 2], writes := [Gives 3], reads := [Gives 1, Gives 2],
     pending := [ACK, 0x12, 0x34]\<rparr>"

section \<open>Properties\<close>

subsection \<open>Memory\<close>

lemma store_outside: "a < p \<or> p + length bs \<le> a \<Longrightarrow> store m p bs a = m a"
  by (induction bs arbitrary: m p) auto

lemma store_inside: "i < length bs \<Longrightarrow> store m p bs (p + i) = bs ! i"
proof (induction bs arbitrary: m p i)
  case Nil
  then show ?case by simp
next
  case (Cons b bs)
  show ?case
  proof (cases i)
    case 0
    then show ?thesis by (simp add: store_outside)
  next
    case (Suc j)
    with Cons.prems have "store (m(p := b)) (Suc p) bs (Suc p + j) = bs ! j"
      by (intro Cons.IH) simp
    with Suc show ?thesis by simp
  qed
qed

lemma store_append: "store m p (xs @ ys) = store (store m p xs) (p + length xs) ys"
  by (induction xs arbitrary: m p) auto

lemma peek_store: "peek (store m p bs) p (length bs) = bs"
  by (rule nth_equalityI) (simp_all add: peek_def store_inside)

subsection \<open>Bit-level facts of the encoder\<close>

lemma mask_hi: "(0xff00 :: 32 word) = push_bit 8 (mask 8)"
  by (simp add: mask_eq_exp_minus_1)

lemma mask_lo: "(0x00ff :: 32 word) = mask 8"
  by (simp add: mask_eq_exp_minus_1)

lemma hi_byte:
  "(ucast (drop_bit 8 ((ucast (v :: 16 word) :: 32 word) AND 0xff00)) :: 8 word) = ucast (drop_bit 8 v)"
  unfolding mask_hi by (rule bit_word_eqI) (auto simp: bit_simps)

lemma lo_byte: "(ucast ((ucast (v :: 16 word) :: 32 word) AND 0x00ff) :: 8 word) = ucast v"
  unfolding mask_lo by (rule bit_word_eqI) (auto simp: bit_simps)

lemma bit8: "bit (b :: 8 word) n \<Longrightarrow> n < 8"
  using bit_imp_le_length [of b n] by simp

lemma min7: "k < 8 \<Longrightarrow> min 7 k = (k :: nat)"
  by simp

lemma scast_low8: "(scast (b :: 8 word) :: 32 word) AND mask 8 = ucast b"
proof (rule bit_word_eqI)
  fix n
  assume "n < LENGTH(32)"
  show "bit ((scast b :: 32 word) AND mask 8) n = bit (ucast b :: 32 word) n"
  proof (cases "n < 8")
    case True
    then show ?thesis by (simp add: bit_simps min7)
  next
    case False
    then show ?thesis using bit8 [of b n] by (auto simp: bit_simps)
  qed
qed

lemma scast_high8:
  "push_bit 8 (scast (a :: 8 word) :: 32 word) AND push_bit 8 (mask 8) = push_bit 8 (ucast a)"
  by (simp add: scast_low8 flip: push_bit_and)

lemma unpack_bits:
  "(ucast ((push_bit 8 (scast (a :: 8 word) :: 32 word) AND 0xff00) OR
           ((scast (b :: 8 word) :: 32 word) AND 0x00ff)) :: 16 word) =
   push_bit 8 (ucast a) OR ucast b"
  unfolding mask_hi mask_lo scast_low8 scast_high8
  by (rule bit_word_eqI) (auto simp: bit_simps dest: bit8)

lemma join_split:
  "push_bit 8 (ucast (ucast (drop_bit 8 (v :: 16 word)) :: 8 word)) OR ucast (ucast v :: 8 word) = v"
  by (rule bit_word_eqI) (auto simp: bit_simps dest: bit_imp_le_length)

lemma hi_div: "unat (ucast (drop_bit 8 (v :: 16 word)) :: 8 word) = unat v div 256"
proof -
  have "unat v < 2 ^ 16"
    using unsigned_less [of v] by simp
  then have "unat v div 256 < 256"
    by simp
  then show ?thesis
    by (simp add: unsigned_ucast_eq unat_drop_bit_eq drop_bit_eq_div take_bit_eq_mod unat_div)
qed

lemma lo_mod: "unat (ucast (v :: 16 word) :: 8 word) = unat v mod 256"
  by (simp add: unsigned_ucast_eq take_bit_eq_mod)

lemma pack_uint_bytes:
  "fst (pack_uint m p v) = m(p := ucast (drop_bit 8 v), p + 1 := ucast v)"
  unfolding pack_uint_def Let_def fst_conv hi_byte lo_byte ..

lemma pack_uint_returns: "snd (pack_uint m p v) = 2"
  by (simp add: pack_uint_def Let_def)

lemma packed_bytes: "packed v = [ucast (drop_bit 8 v), ucast v]"
  by (simp add: packed_def peek_def pack_uint_bytes upt_rec)

lemma pack_uint_store: "fst (pack_uint m p v) = store m p (packed v)"
  by (simp add: pack_uint_bytes packed_bytes)

text \<open>
  Reading the two bytes as unsigned \<^verbatim>\<open>char\<close>s (as on ARM Linux) gives the same value:
  the signedness of plain \<^verbatim>\<open>char\<close> does not matter to \<open>unpack_uint\<close>.
\<close>

lemma unpack_uint_sign_free:
  "unpack_uint m src =
     ucast ((push_bit 8 (ucast (m src) :: 32 word) AND 0xff00) OR
            ((ucast (m (src + 1)) :: 32 word) AND 0x00ff))"
  unfolding unpack_uint_def unpack_bits mask_hi mask_lo
  by (rule bit_word_eqI) (auto simp: bit_simps dest: bit8)

lemma pack_uints_loop_all:
  "pack_uints_loop m buffer i (i + int (length vs)) vs =
     Some (store m buffer (concat (map packed vs)))"
proof (induction vs arbitrary: m buffer i)
  case Nil
  then show ?case by (subst pack_uints_loop.simps) simp
next
  case (Cons v vs)
  have "pack_uints_loop m buffer i (i + int (length (v # vs))) (v # vs) =
        pack_uints_loop (fst (pack_uint m buffer v)) (buffer + 2) (i + 1)
          ((i + 1) + int (length vs)) vs"
    by (subst pack_uints_loop.simps) (simp add: add.assoc)
  also have "\<dots> = Some (store (store m buffer (packed v)) (buffer + 2) (concat (map packed vs)))"
    by (simp only: Cons.IH pack_uint_store)
  also have "\<dots> = Some (store m buffer (concat (map packed (v # vs))))"
    by (simp add: store_append packed_bytes)
  finally show ?case .
qed

lemma length_concat_packed: "length (concat (map packed vs)) = 2 * length vs"
  by (induction vs) (simp_all add: packed_bytes)

text \<open>The instance for three parameters.\<close>

lemma pack_uints_three:
  "pack_uints m buffer 3 [a, b, c] = Some (store m buffer (packed a @ packed b @ packed c), 6)"
  using pack_uints_loop_all [of m buffer 0 "[a, b, c]"] by (simp add: pack_uints_def)

subsection \<open>The claims about the encoder\<close>

text \<open>
  C3. Round trip: for every 16-bit value \<open>v\<close>, every memory and every address,
  unpacking the two bytes that \<open>pack_uint\<close> has just written gives \<open>v\<close> again.
\<close>

theorem C3_unpack_pack_roundtrip: "unpack_uint (fst (pack_uint m p v)) p = v"
  unfolding pack_uint_bytes unpack_uint_def unpack_bits
  by (simp add: join_split)

text \<open>
  C7. Byte order: for every 16-bit value \<open>v\<close>, \<open>pack_uint\<close> writes the most significant
  byte of \<open>v\<close> (\<open>v div 256\<close>) at offset 0 and the least significant byte (\<open>v mod 256\<close>)
  at offset 1, and returns 2.
\<close>

theorem C7_pack_uint_msb_first:
  "unat (fst (pack_uint m p v) p) = unat v div 256 \<and>
   unat (fst (pack_uint m p v) (p + 1)) = unat v mod 256 \<and>
   snd (pack_uint m p v) = 2"
  using hi_div [of v] lo_mod [of v]
  by (simp add: pack_uint_bytes pack_uint_returns)

text \<open>
  C8. Concatenation: called with a sequence \<open>vs\<close> of parameters and their count,
  \<open>pack_uints\<close> returns twice the count and leaves in the buffer, from its first
  byte on, the bytes of \<open>pack_uint\<close> for each parameter in order; nothing else in
  memory changes (the result is the old memory with those bytes stored at \<open>buffer\<close>).
\<close>

theorem C8_pack_uints_concat:
  "pack_uints m buffer (int (length vs)) vs =
     Some (store m buffer (concat (map packed vs)), 2 * int (length vs)) \<and>
   peek (store m buffer (concat (map packed vs))) buffer (2 * length vs) =
     concat (map packed vs)"
proof -
  have "pack_uints_loop m buffer 0 (0 + int (length vs)) vs =
        Some (store m buffer (concat (map packed vs)))"
    by (rule pack_uints_loop_all)
  then have "pack_uints m buffer (int (length vs)) vs =
        Some (store m buffer (concat (map packed vs)), 2 * int (length vs))"
    by (simp add: pack_uints_def)
  moreover have "peek (store m buffer (concat (map packed vs))) buffer (2 * length vs) =
        concat (map packed vs)"
    using peek_store [of m buffer "concat (map packed vs)"]
    by (simp add: length_concat_packed)
  ultimately show ?thesis by simp
qed


subsection \<open>Error reporting\<close>

lemma ulcd_error_code: "fst (ulcd_error X ulcd code msg) = code"
  by (simp add: ulcd_error_def Let_def)

lemma ulcd_error_handle:
  "0 < STRBUFSIZE X \<Longrightarrow>
   snd (ulcd_error X ulcd code msg) =
     ulcd\<lparr>error := code,
          err := (case msg of
                    None \<Rightarrow> []
                  | Some (fmt, args) \<Rightarrow> take (STRBUFSIZE X - 1) (vformat fmt args))\<rparr>"
  by (auto simp: ulcd_error_def Let_def split: option.splits)

text \<open>
  C9. \<open>ulcd_error\<close> returns the code and records it on the handle. A null message
  leaves the empty string; any other message is stored formatted and cut to
  \<^verbatim>\<open>STRBUFSIZE - 1\<close> characters, so that with its terminator it fits the bound
  \<^verbatim>\<open>STRBUFSIZE\<close>. The result does not depend on the code and message that the handle
  held before: they are overwritten. (\<^verbatim>\<open>STRBUFSIZE\<close> is the size of a buffer: positive.)
\<close>

theorem C9_ulcd_error_overwrites:
  assumes "0 < STRBUFSIZE X"
  shows "fst (ulcd_error X ulcd code msg) = code \<and>
         error (snd (ulcd_error X ulcd code msg)) = code \<and>
         err (snd (ulcd_error X ulcd code msg)) =
           (case msg of
              None \<Rightarrow> []
            | Some (fmt, args) \<Rightarrow> take (STRBUFSIZE X - 1) (vformat fmt args)) \<and>
         length (err (snd (ulcd_error X ulcd code msg))) < STRBUFSIZE X \<and>
         ulcd_error X (ulcd\<lparr>error := code0, err := msg0\<rparr>) code msg = ulcd_error X ulcd code msg"
proof -
  have "length (err (snd (ulcd_error X ulcd code msg))) < STRBUFSIZE X"
    using assms by (auto simp: ulcd_error_handle split: option.splits)
  moreover have "ulcd_error X (ulcd\<lparr>error := code0, err := msg0\<rparr>) code msg = ulcd_error X ulcd code msg"
    using assms by (auto simp: ulcd_error_def Let_def split: option.splits)
  ultimately show ?thesis
    using assms by (simp add: ulcd_error_code ulcd_error_handle)
qed

text \<open>
  With a bound of 8, a handle holding code 1 and an old message gets code 5 and the
  first seven characters of the formatted message, or the empty message for \<^verbatim>\<open>NULL\<close>.
\<close>

theorem C9_ulcd_error_overwrites_witness:
  "0 < STRBUFSIZE (ex_externals\<lparr>STRBUFSIZE := 8\<rparr>) \<and>
   ulcd_error (ex_externals\<lparr>STRBUFSIZE := 8\<rparr>) (ex_ulcd\<lparr>error := 1, err := ''old message''\<rparr>) 5
     (Some (''Unable: %s'', [''EIO''])) = (5, ex_ulcd\<lparr>error := 5, err := ''Unable:''\<rparr>) \<and>
   ulcd_error (ex_externals\<lparr>STRBUFSIZE := 8\<rparr>) (ex_ulcd\<lparr>error := 1, err := ''old message''\<rparr>) 5 None =
     (5, ex_ulcd\<lparr>error := 5, err := []\<rparr>)"
  using C9_ulcd_error_overwrites [where X = "ex_externals\<lparr>STRBUFSIZE := 8\<rparr>" and ulcd = ex_ulcd
      and code = 5 and msg = "Some (''Unable: %s'', [''EIO''])" and ?code0.0 = 1
      and ?msg0.0 = "''old message''"]
    C9_ulcd_error_overwrites [where X = "ex_externals\<lparr>STRBUFSIZE := 8\<rparr>" and ulcd = ex_ulcd
      and code = 5 and msg = None and ?code0.0 = 1 and ?msg0.0 = "''old message''"]
  by (simp add: ex_externals_def ex_ulcd_def ulcd_error_def)

subsection \<open>The acknowledgment\<close>

lemma sys_read_one:
  "reads w = Gives n # rs \<Longrightarrow> 0 < n \<Longrightarrow> pending w = b # ps \<Longrightarrow>
   sys_read w 1 = Some (1, [b], w\<lparr>reads := rs, pending := ps\<rparr>)"
proof -
  assume a: "reads w = Gives n # rs" "0 < n" "pending w = b # ps"
  then have "min (min n (unat (1 :: 64 word))) (length (pending w)) = 1"
    by simp
  then show ?thesis
    using a by (simp add: sys_read_def Let_def)
qed

lemma sys_read_returns:
  "reads w = oc # rs \<Longrightarrow> \<exists>n bs w'. sys_read w count = Some (n, bs, w')"
  by (cases oc) (simp_all add: sys_read_def Let_def)

lemma sys_read_nothing:
  "reads w = oc # rs \<Longrightarrow> (\<exists>e. oc = Fails e) \<or> oc = Gives 0 \<or> pending w = [] \<Longrightarrow>
   sys_read w count = Some (n, bs, w') \<Longrightarrow> bs = []"
  by (cases oc) (auto simp: sys_read_def Let_def)

lemma ulcd_recv_ack_cases:
  assumes "sys_read w 1 = Some (n, bs, w')"
  shows "\<exists>u'. ulcd_recv_ack X w ulcd r0 =
                 Some (ack_code X (case bs of [] \<Rightarrow> r0 | b # _ \<Rightarrow> b), w', u') \<and>
           (u' = ulcd \<and> ack_code X (case bs of [] \<Rightarrow> r0 | b # _ \<Rightarrow> b) = ERROK X \<or>
            error u' = ack_code X (case bs of [] \<Rightarrow> r0 | b # _ \<Rightarrow> b) \<and>
            (error u' = ERRNAK X \<or> error u' = ERRUNKNOWN X))"
  using assms
  by (auto simp: ulcd_recv_ack_def ack_code_def ulcd_error_def Let_def)

lemma ulcd_recv_ack_report:
  "ulcd_recv_ack X w ulcd r0 = Some (c, w', u') \<Longrightarrow>
   c = ERROK X \<and> u' = ulcd \<or> error u' = c \<and> (c = ERRNAK X \<or> c = ERRUNKNOWN X)"
  by (auto simp: ulcd_recv_ack_def ulcd_error_def Let_def split: option.splits if_splits)

text \<open>
  C1, as the code has it. When the read delivers the byte \<open>b\<close>, \<open>ulcd_recv_ack\<close> returns
  \<^verbatim>\<open>ERROK\<close> and leaves the handle alone if \<open>b\<close> is ACK (\<^verbatim>\<open>0x06\<close>); returns \<^verbatim>\<open>ERRNAK\<close>
  and records it with the message \<^verbatim>\<open>Device sent NAK instead of ACK\<close> if \<open>b\<close> is NAK
  (\<^verbatim>\<open>0x15\<close>); and for every other byte returns \<^verbatim>\<open>ERRUNKNOWN\<close> and records it with the
  message \<^verbatim>\<open>Device sent unknown reply instead of ACK\<close>. The messages begin with a
  capital letter, and they are stored whole when \<^verbatim>\<open>STRBUFSIZE\<close> exceeds their 40
  characters.
\<close>

theorem C1_recv_ack_trichotomy:
  assumes "reads w = Gives n # rs" and "0 < n" and "pending w = b # ps" and "40 < STRBUFSIZE X"
  shows "ulcd_recv_ack X w ulcd r0 =
           Some (if b = ACK then (ERROK X, w\<lparr>reads := rs, pending := ps\<rparr>, ulcd)
                 else if b = NAK then
                   (ERRNAK X, w\<lparr>reads := rs, pending := ps\<rparr>,
                    ulcd\<lparr>error := ERRNAK X, err := ''Device sent NAK instead of ACK''\<rparr>)
                 else
                   (ERRUNKNOWN X, w\<lparr>reads := rs, pending := ps\<rparr>,
                    ulcd\<lparr>error := ERRUNKNOWN X,
                         err := ''Device sent unknown reply instead of ACK''\<rparr>))"
  using assms(4)
  by (simp add: ulcd_recv_ack_def sys_read_one [OF assms(1-3)] ulcd_error_def Let_def)

text \<open>The reply byte \<^verbatim>\<open>0x42\<close> gives \<^verbatim>\<open>ERRUNKNOWN\<close>.\<close>

theorem C1_recv_ack_trichotomy_witness:
  "ulcd_recv_ack ex_externals (ex_world\<lparr>reads := [Gives 1], pending := [0x42]\<rparr>) ex_ulcd 0 =
     Some (2, ex_world\<lparr>reads := [], pending := []\<rparr>,
           ex_ulcd\<lparr>error := 2, err := ''Device sent unknown reply instead of ACK''\<rparr>)"
  using C1_recv_ack_trichotomy [where w = "ex_world\<lparr>reads := [Gives 1], pending := [0x42]\<rparr>"
      and n = 1 and rs = "[]" and b = "0x42" and ps = "[]" and X = ex_externals and ulcd = ex_ulcd
      and ?r0.0 = 0]
  by (simp add: ex_externals_def ex_world_def ACK_def NAK_def)

text \<open>
  The message recorded for NAK is not the string \<^verbatim>\<open>device sent NAK instead of ACK\<close>
  with a small initial letter.
\<close>

theorem C1_message_counterexample:
  "ulcd_recv_ack ex_externals (ex_world\<lparr>reads := [Gives 1], pending := [NAK]\<rparr>) ex_ulcd 0 =
     Some (ERRNAK ex_externals, ex_world,
           ex_ulcd\<lparr>error := ERRNAK ex_externals, err := ''Device sent NAK instead of ACK''\<rparr>) \<and>
   ulcd_recv_ack ex_externals (ex_world\<lparr>reads := [Gives 1], pending := [NAK]\<rparr>) ex_ulcd 0 \<noteq>
     Some (ERRNAK ex_externals, ex_world,
           ex_ulcd\<lparr>error := ERRNAK ex_externals, err := ''device sent NAK instead of ACK''\<rparr>)"
  by (simp add: ulcd_recv_ack_def sys_read_def ulcd_error_def Let_def ex_externals_def ex_world_def
      ex_ulcd_def ACK_def NAK_def)

text \<open>
  C10. \<open>ulcd_recv_ack\<close> does not look at what the read returned. Whatever the outcome
  \<open>oc\<close> of the read, the function returns, its code is \<^verbatim>\<open>ERROK\<close>, \<^verbatim>\<open>ERRNAK\<close> or
  \<^verbatim>\<open>ERRUNKNOWN\<close>, and the handle holds its old code or one of the last two; when the
  read fails or delivers no byte, the code is the one for the value \<open>r0\<close> that the
  reply buffer held before the read.
\<close>

theorem C10_recv_ack_ignores_read_result:
  assumes "reads w = oc # rs"
  shows "\<exists>c w' u'. ulcd_recv_ack X w ulcd r0 = Some (c, w', u') \<and>
           (c = ERROK X \<or> c = ERRNAK X \<or> c = ERRUNKNOWN X) \<and>
           (error u' = error ulcd \<or> error u' = ERRNAK X \<or> error u' = ERRUNKNOWN X) \<and>
           ((\<exists>e. oc = Fails e) \<or> oc = Gives 0 \<or> pending w = [] \<longrightarrow> c = ack_code X r0)"
proof -
  from sys_read_returns [OF assms] obtain n bs w' where rd: "sys_read w 1 = Some (n, bs, w')"
    by blast
  from ulcd_recv_ack_cases [OF rd] obtain u' where
    r: "ulcd_recv_ack X w ulcd r0 = Some (ack_code X (case bs of [] \<Rightarrow> r0 | b # _ \<Rightarrow> b), w', u')" and
    h: "u' = ulcd \<or> error u' = ERRNAK X \<or> error u' = ERRUNKNOWN X"
    by blast
  have "(\<exists>e. oc = Fails e) \<or> oc = Gives 0 \<or> pending w = [] \<Longrightarrow> bs = []"
    using sys_read_nothing [OF assms _ rd] by blast
  moreover have "ack_code X b = ERROK X \<or> ack_code X b = ERRNAK X \<or> ack_code X b = ERRUNKNOWN X" for b
    by (simp add: ack_code_def)
  ultimately show ?thesis
    using r h by auto
qed

text \<open>
  A read that fails with errno 5 while the buffer happens to hold ACK reports success;
  a read that delivers nothing while it holds \<^verbatim>\<open>0x7f\<close> reports an unknown reply.
\<close>

theorem C10_recv_ack_ignores_read_result_witness:
  "ulcd_recv_ack ex_externals (ex_world\<lparr>reads := [Fails 5]\<rparr>) ex_ulcd ACK =
     Some (ERROK ex_externals, ex_world\<lparr>errno := 5\<rparr>, ex_ulcd) \<and>
   ulcd_recv_ack ex_externals (ex_world\<lparr>reads := [Gives 0]\<rparr>) ex_ulcd 0x7f =
     Some (ERRUNKNOWN ex_externals, ex_world,
           ex_ulcd\<lparr>error := 2, err := ''Device sent unknown reply instead of ACK''\<rparr>)"
  using C10_recv_ack_ignores_read_result [where w = "ex_world\<lparr>reads := [Fails 5]\<rparr>"
      and oc = "Fails 5" and rs = "[]" and X = ex_externals and ulcd = ex_ulcd and ?r0.0 = ACK]
    C10_recv_ack_ignores_read_result [where w = "ex_world\<lparr>reads := [Gives 0]\<rparr>"
      and oc = "Gives 0" and rs = "[]" and X = ex_externals and ulcd = ex_ulcd and ?r0.0 = "0x7f"]
  by (simp add: ulcd_recv_ack_def sys_read_def ulcd_error_def Let_def ex_externals_def ex_world_def
      ACK_def NAK_def)


subsection \<open>The transfer loops\<close>

text \<open>
  A \<^verbatim>\<open>size_t\<close> is never below zero, so the tests \<^verbatim>\<open>sent < 0\<close> and \<^verbatim>\<open>bytes_read < 0\<close>
  never succeed: whenever a loop returns, it returns \<^verbatim>\<open>ERROK\<close> and has not touched the
  handle.
\<close>

lemma word64_not_neg: "\<not> (x :: 64 word) < 0"
  by simp

lemma ulcd_send_loop_ok:
  "ulcd_send_loop X w ulcd m data sz tot = Some (r, w', u') \<Longrightarrow> r = ERROK X \<and> u' = ulcd"
proof (induction X w ulcd m data sz tot rule: ulcd_send_loop.induct)
  case (1 X w ulcd m data sz tot)
  show ?case
  proof (cases "tot < word_of_int sz")
    case False
    with "1.prems" show ?thesis
      by (subst (asm) ulcd_send_loop.simps) simp
  next
    case True
    from "1.prems" True obtain sent w1 where
      wr: "sys_write w m (data + unat tot) (word_of_int sz - tot) = Some (sent, w1)" and
      rec: "ulcd_send_loop X w1 ulcd m data sz (tot + sent) = Some (r, w', u')"
      by (subst (asm) ulcd_send_loop.simps) (auto split: option.splits)
    from "1.IH" [OF True wr refl word64_not_neg rec] show ?thesis
      by simp
  qed
qed

lemma ulcd_recv_data_loop_ok:
  "ulcd_recv_data_loop X w ulcd m buffer datasize tot = Some (r, w', u', m') \<Longrightarrow>
   r = ERROK X \<and> u' = ulcd"
proof (induction X w ulcd m buffer datasize tot rule: ulcd_recv_data_loop.induct)
  case (1 X w ulcd m buffer datasize tot)
  show ?case
  proof (cases "tot < word_of_int datasize")
    case False
    with "1.prems" show ?thesis
      by (subst (asm) ulcd_recv_data_loop.simps) simp
  next
    case True
    from "1.prems" True obtain n bs w1 where
      rd: "sys_read w (word_of_int datasize - tot) = Some (n, bs, w1)" and
      rec: "ulcd_recv_data_loop X w1 ulcd (store m (buffer + unat tot) bs) buffer datasize (tot + n) =
              Some (r, w', u', m')"
      by (subst (asm) ulcd_recv_data_loop.simps) (auto split: option.splits)
    from "1.IH" [OF True rd refl refl word64_not_neg rec] show ?thesis
      by simp
  qed
qed

lemma ulcd_send_ok:
  "ulcd_send X w ulcd m data sz = Some (c, w', u') \<Longrightarrow> c = ERROK X \<and> u' = ulcd"
  unfolding ulcd_send_def by (rule ulcd_send_loop_ok)

text \<open>
  C2, evaluated where the code departs from it. On a line whose first \<^verbatim>\<open>write\<close> fails
  with errno 5, \<open>ulcd_send\<close> of a three-byte command returns \<^verbatim>\<open>ERROK\<close>, has put nothing
  on the wire and has recorded no error: \<open>-1\<close> stored in the \<^verbatim>\<open>size_t\<close> \<open>sent\<close> is not
  below zero, and added to \<open>tot\<close> it ends the loop. On a line that takes two bytes,
  then fails, then takes two bytes, \<open>ulcd_send\<close> goes on writing after the failure,
  one byte back, and the device gets the second byte twice.
\<close>

theorem C2_send_ignores_write_error:
  "ulcd_send ex_externals (ex_world\<lparr>writes := [Fails 5]\<rparr>) ex_ulcd ex_mem 0 3 =
     Some (ERROK ex_externals, ex_world\<lparr>errno := 5\<rparr>, ex_ulcd) \<and>
   ulcd_send ex_externals (ex_world\<lparr>writes := [Gives 2, Fails 5, Gives 2]\<rparr>) ex_ulcd ex_mem 0 3 =
     Some (ERROK ex_externals, ex_world\<lparr>errno := 5, wire := [0x10, 0x20, 0x20, 0x30]\<rparr>, ex_ulcd)"
  by code_simp

subsection \<open>Command and acknowledgment\<close>

lemma ulcd_send_recv_ack_report:
  assumes "ERROK X = 0" and "ulcd_send_recv_ack X w ulcd m data sz r0 = Some (c, w', u')"
  shows "c = ERROK X \<and> u' = ulcd \<or> error u' = c \<and> (c = ERRNAK X \<or> c = ERRUNKNOWN X)"
proof -
  from assms(2) obtain rs w1 u1 where s: "ulcd_send X w ulcd m data sz = Some (rs, w1, u1)"
    by (auto simp: ulcd_send_recv_ack_def split: option.splits)
  from ulcd_send_ok [OF s] assms(1) have s': "rs = 0" "u1 = ulcd" by simp_all
  with assms(2) s obtain ra w2 u2 where
    a: "ulcd_recv_ack X w1 ulcd r0 = Some (ra, w2, u2)" and
    c: "(c, w', u') = (if ra \<noteq> 0 then (error u2, w2, u2) else (ERROK X, w2, u2))"
    by (auto simp: ulcd_send_recv_ack_def split: option.splits if_splits)
  from ulcd_recv_ack_report [OF a] c assms(1) show ?thesis
    by (auto split: if_splits)
qed

text \<open>
  When \<open>ulcd_send\<close> returns, \<open>ulcd_send_recv_ack\<close> goes on to \<open>ulcd_recv_ack\<close> and returns
  what that returns (with \<^verbatim>\<open>ERROK\<close> zero).
\<close>

lemma ulcd_send_recv_ack_after_send:
  assumes "ERROK X = 0" and "ulcd_send X w ulcd m data sz = Some (rs, w1, u1)"
    and "ulcd_recv_ack X w1 u1 r0 = Some (ra, w2, u2)"
  shows "ulcd_send_recv_ack X w ulcd m data sz r0 = Some (ra, w2, u2)"
proof -
  from ulcd_send_ok [OF assms(2)] assms(1) have "rs = 0" by simp
  moreover from ulcd_recv_ack_report [OF assms(3)] assms(1)
  have "ra \<noteq> 0 \<longrightarrow> error u2 = ra" by auto
  ultimately show ?thesis
    using assms by (auto simp: ulcd_send_recv_ack_def)
qed



subsection \<open>The payload\<close>

lemma unat_of_nat64: "n < 2 ^ 64 \<Longrightarrow> unat (of_nat n :: 64 word) = n"
  by (simp add: unsigned_of_nat take_bit_nat_eq_self)

lemma of_nat_less64:
  "t < 2 ^ 64 \<Longrightarrow> N < 2 ^ 64 \<Longrightarrow> ((of_nat t :: 64 word) < of_nat N) = (t < N)"
  by (simp add: word_of_nat_less_iff take_bit_nat_eq_self)

text \<open>
  The loop of \<open>ulcd_send_recv_ack_data\<close> on a line whose next reads deliver
  \<open>ns = [n\<^sub>1, \<dots>, n\<^sub>k]\<close> bytes, all positive, \<open>N - t\<close> in all: started with \<open>t\<close> bytes read,
  it takes exactly these reads and stores the bytes they deliver after the first \<open>t\<close>.
\<close>

lemma recv_loop_chunks:
  assumes "\<forall>k \<in> set ns. 0 < k" and "N < 2 ^ 64"
  shows "reads w = map Gives ns @ rs \<Longrightarrow> pending w = bs @ ps \<Longrightarrow> length bs = sum_list ns \<Longrightarrow>
         t + sum_list ns = N \<Longrightarrow>
         ulcd_recv_data_loop X w ulcd m buffer (int N) (of_nat t) =
           Some (ERROK X, w\<lparr>reads := rs, pending := ps\<rparr>, ulcd, store m (buffer + t) bs)"
  using assms(1)
proof (induction ns arbitrary: w m t bs)
  case Nil
  then have "t = N" "bs = []" by simp_all
  moreover have "w\<lparr>reads := rs, pending := ps\<rparr> = w"
    using Nil by simp
  ultimately show ?case
    by (subst ulcd_recv_data_loop.simps) simp
next
  case (Cons k ns)
  from Cons.prems have k: "0 < k" and ks: "\<forall>j \<in> set ns. 0 < j" by simp_all
  from Cons.prems have tN: "t + k + sum_list ns = N" by simp
  with k assms(2) have lt: "t < N" "t < 2 ^ 64" "N - t < 2 ^ 64" "k < 2 ^ 64" by simp_all
  have cnt: "unat ((of_nat N :: 64 word) - of_nat t) = N - t"
  proof -
    have "(of_nat N :: 64 word) - of_nat t = of_nat (N - t)"
      using lt(1) by (simp add: of_nat_diff)
    then show ?thesis using lt(3) by (simp add: unat_of_nat64)
  qed
  have ut: "unat (of_nat t :: 64 word) = t"
    using lt(2) by (simp add: unat_of_nat64)
  have cond: "(of_nat t :: 64 word) < of_nat N"
    using of_nat_less64 [OF lt(2) assms(2)] lt(1) by simp
  have kk: "min k (N - t) = k"
    using tN by simp
  let ?w1 = "w\<lparr>reads := map Gives ns @ rs, pending := drop k bs @ ps\<rparr>"
  have rd: "sys_read w (of_nat N - of_nat t) = Some (of_nat k, take k bs, ?w1)"
    using Cons.prems kk by (simp add: sys_read_def cnt Let_def)
  have step: "ulcd_recv_data_loop X w ulcd m buffer (int N) (of_nat t) =
        ulcd_recv_data_loop X ?w1 ulcd (store m (buffer + t) (take k bs)) buffer (int N)
          (of_nat (t + k))"
    using cond by (subst ulcd_recv_data_loop.simps) (simp add: rd ut)
  have "ulcd_recv_data_loop X ?w1 ulcd (store m (buffer + t) (take k bs)) buffer (int N)
          (of_nat (t + k)) =
        Some (ERROK X, ?w1\<lparr>reads := rs, pending := ps\<rparr>, ulcd,
              store (store m (buffer + t) (take k bs)) (buffer + (t + k)) (drop k bs))"
    using Cons.prems tN by (intro Cons.IH ks) simp_all
  moreover have "store (store m (buffer + t) (take k bs)) (buffer + (t + k)) (drop k bs) =
        store m (buffer + t) bs"
  proof -
    have "length (take k bs) = k" using Cons.prems by simp
    then show ?thesis
      using store_append [of m "buffer + t" "take k bs" "drop k bs"] by (simp add: add.assoc)
  qed
  ultimately show ?case
    using step by simp
qed

text \<open>
  C6. Let the command and acknowledgment exchange \<open>ulcd_send_recv_ack\<close> return \<open>rx\<close>,
  leaving the world \<open>w1\<close>. If \<open>rx\<close> is not \<^verbatim>\<open>ERROK\<close>, \<open>ulcd_send_recv_ack_data\<close> returns
  the recorded error with the world \<open>w1\<close> and the memory as they are: no payload byte
  is read. If it is \<^verbatim>\<open>ERROK\<close> and the next reads deliver \<open>ns\<close> bytes (each read at least
  one), \<open>n\<close> in all, the function takes exactly these reads, returns \<^verbatim>\<open>ERROK\<close>, and the
  buffer holds the \<open>n\<close> payload bytes \<open>bs\<close> in order while the bytes \<open>ps\<close> that follow
  them stay unread.
\<close>

theorem C6_data_drain:
  assumes "ERROK X = 0"
    and "ulcd_send_recv_ack X w ulcd m data sz r0 = Some (rx, w1, u1)"
  shows "(rx \<noteq> ERROK X \<longrightarrow>
            ulcd_send_recv_ack_data X w ulcd m data sz buffer datasize r0 =
              Some (error u1, w1, u1, m)) \<and>
         (rx = ERROK X \<and> reads w1 = map Gives ns @ rs \<and> (\<forall>k \<in> set ns. 0 < k) \<and>
          pending w1 = bs @ ps \<and> length bs = n \<and> sum_list ns = n \<and> n < 2 ^ 31 \<longrightarrow>
            ulcd_send_recv_ack_data X w ulcd m data sz buffer (int n) r0 =
              Some (ERROK X, w1\<lparr>reads := rs, pending := ps\<rparr>, u1, store m buffer bs) \<and>
            peek (store m buffer bs) buffer n = bs)"
proof (intro conjI impI)
  assume "rx \<noteq> ERROK X"
  with assms show "ulcd_send_recv_ack_data X w ulcd m data sz buffer datasize r0 =
      Some (error u1, w1, u1, m)"
    by (simp add: ulcd_send_recv_ack_data_def)
next
  assume h: "rx = ERROK X \<and> reads w1 = map Gives ns @ rs \<and> (\<forall>k \<in> set ns. 0 < k) \<and>
          pending w1 = bs @ ps \<and> length bs = n \<and> sum_list ns = n \<and> n < 2 ^ 31"
  then have big: "n < (2 :: nat) ^ 64"
    by (simp add: less_trans [of n "2 ^ 31"])
  from h have h1: "\<forall>k \<in> set ns. 0 < k" and h2: "reads w1 = map Gives ns @ rs"
    and h3: "pending w1 = bs @ ps" and h4: "length bs = sum_list ns" and h5: "0 + sum_list ns = n"
    by auto
  have "ulcd_recv_data_loop X w1 u1 m buffer (int n) (of_nat 0) =
          Some (ERROK X, w1\<lparr>reads := rs, pending := ps\<rparr>, u1, store m (buffer + 0) bs)"
    by (rule recv_loop_chunks [OF h1 big h2 h3 h4 h5])
  with assms h show "ulcd_send_recv_ack_data X w ulcd m data sz buffer (int n) r0 =
              Some (ERROK X, w1\<lparr>reads := rs, pending := ps\<rparr>, u1, store m buffer bs)"
    by (simp add: ulcd_send_recv_ack_data_def)
  from h show "peek (store m buffer bs) buffer n = bs"
    using peek_store [of m buffer bs] by simp
qed

text \<open>
  Four payload bytes arriving in reads of 1, 2 and 1 bytes after the ACK are all stored
  at the buffer; after a NAK the three reads and the four bytes are left untouched.
\<close>

theorem C6_data_drain_witness:
  "ulcd_send_recv_ack_data ex_externals
     (ex_world\<lparr>writes := [Gives 3], reads := [Gives 1, Gives 1, Gives 2, Gives 1],
        pending := [ACK, 1, 2, 3, 4]\<rparr>) ex_ulcd ex_mem 0 3 100 4 0 =
     Some (0, ex_world\<lparr>wire := [0x10, 0x20, 0x30]\<rparr>, ex_ulcd, store ex_mem 100 [1, 2, 3, 4]) \<and>
   peek (store ex_mem 100 [1, 2, 3, 4]) 100 4 = [1, 2, 3, 4] \<and>
   ulcd_send_recv_ack_data ex_externals
     (ex_world\<lparr>writes := [Gives 3], reads := [Gives 1, Gives 1, Gives 2, Gives 1],
        pending := [NAK, 1, 2, 3, 4]\<rparr>) ex_ulcd ex_mem 0 3 100 4 0 =
     Some (1, ex_world\<lparr>reads := [Gives 1, Gives 2, Gives 1], wire := [0x10, 0x20, 0x30],
                pending := [1, 2, 3, 4]\<rparr>,
           ex_ulcd\<lparr>error := 1, err := ''Device sent NAK instead of ACK''\<rparr>, ex_mem)"
proof -
  have ok: "ERROK ex_externals = 0"
    by (simp add: ex_externals_def)
  have ack: "ulcd_send_recv_ack ex_externals
      (ex_world\<lparr>writes := [Gives 3], reads := [Gives 1, Gives 1, Gives 2, Gives 1],
         pending := [ACK, 1, 2, 3, 4]\<rparr>) ex_ulcd ex_mem 0 3 0 =
      Some (0, ex_world\<lparr>reads := [Gives 1, Gives 2, Gives 1], wire := [0x10, 0x20, 0x30],
                 pending := [1, 2, 3, 4]\<rparr>, ex_ulcd)"
    by code_simp
  have nak: "ulcd_send_recv_ack ex_externals
      (ex_world\<lparr>writes := [Gives 3], reads := [Gives 1, Gives 1, Gives 2, Gives 1],
         pending := [NAK, 1, 2, 3, 4]\<rparr>) ex_ulcd ex_mem 0 3 0 =
      Some (1, ex_world\<lparr>reads := [Gives 1, Gives 2, Gives 1], wire := [0x10, 0x20, 0x30],
                 pending := [1, 2, 3, 4]\<rparr>,
            ex_ulcd\<lparr>error := 1, err := ''Device sent NAK instead of ACK''\<rparr>)"
    by code_simp
  show ?thesis
    using C6_data_drain [OF ok ack, where ns = "[1, 2, 1]" and rs = "[]" and bs = "[1, 2, 3, 4]"
        and ps = "[]" and n = 4 and buffer = 100]
      C6_data_drain [OF ok nak, where buffer = 100 and datasize = 4]
    by (simp add: ex_externals_def ex_world_def)
qed

subsection \<open>The codes returned and recorded\<close>

lemma ulcd_send_recv_ack_data_report:
  assumes "ERROK X = 0"
    and "ulcd_send_recv_ack_data X w ulcd m data sz buffer datasize r0 = Some (c, w', u', m')"
  shows "c = ERROK X \<and> u' = ulcd \<or> error u' = c \<and> (c = ERRNAK X \<or> c = ERRUNKNOWN X)"
proof -
  from assms(2) obtain rx w1 u1 where
    x: "ulcd_send_recv_ack X w ulcd m data sz r0 = Some (rx, w1, u1)"
    by (auto simp: ulcd_send_recv_ack_data_def split: option.splits)
  note r = ulcd_send_recv_ack_report [OF assms(1) x]
  show ?thesis
  proof (cases "rx = 0")
    case False
    with assms(2) x have "c = error u1" "u' = u1"
      by (auto simp: ulcd_send_recv_ack_data_def)
    with r False assms(1) show ?thesis by auto
  next
    case True
    with assms(2) x have "ulcd_recv_data_loop X w1 u1 m buffer datasize 0 = Some (c, w', u', m')"
      by (simp add: ulcd_send_recv_ack_data_def)
    from ulcd_recv_data_loop_ok [OF this] r True assms(1) show ?thesis by auto
  qed
qed

lemma ulcd_send_recv_ack_word_report:
  assumes "ERROK X = 0"
    and "ulcd_send_recv_ack_word X w ulcd m data sz param buffer r0 = Some (c, w', u', p')"
  shows "c = ERROK X \<and> u' = ulcd \<or> error u' = ERRNAK X \<or> error u' = ERRUNKNOWN X"
proof -
  from assms(2) obtain rd w1 u1 m1 where
    d: "ulcd_send_recv_ack_data X w ulcd m data sz buffer 2 r0 = Some (rd, w1, u1, m1)"
    by (auto simp: ulcd_send_recv_ack_word_def split: option.splits)
  from assms(2) d have "u' = u1" "rd = 0 \<longrightarrow> c = ERROK X"
    by (auto simp: ulcd_send_recv_ack_word_def split: option.splits if_splits)
  with ulcd_send_recv_ack_data_report [OF assms(1) d] assms(1) show ?thesis
    by auto
qed

lemma ulcd_open_report:
  "ulcd_open_serial_device X w ulcd = Some (c, w', u') \<Longrightarrow>
   c = ERROK X \<and> error u' = error ulcd \<and> err u' = err ulcd \<or> error u' = c \<and> c = errno w'"
  by (auto simp: ulcd_open_serial_device_def ulcd_error_def Let_def split: option.splits if_splits)

text \<open>
  C4, as the code has it (with \<^verbatim>\<open>ERROK\<close> zero, as the callers' tests take it). Whenever
  \<open>ulcd_open_serial_device\<close>, \<open>ulcd_send\<close>, \<open>ulcd_recv_ack\<close>, \<open>ulcd_send_recv_ack\<close> or
  \<open>ulcd_send_recv_ack_data\<close> returns, it either returns \<^verbatim>\<open>ERROK\<close> and leaves the error
  code and message of the handle as they were, or returns the code that it has
  recorded on the handle, one of \<^verbatim>\<open>ERRNAK\<close>, \<^verbatim>\<open>ERRUNKNOWN\<close> and the \<^verbatim>\<open>errno\<close> of the failed
  call. Whenever \<open>ulcd_send_recv_ack_word\<close> returns, it either returns \<^verbatim>\<open>ERROK\<close> with
  the handle's error code and message as they were, or the handle holds one of these
  codes.
\<close>

theorem C4_codes_returned_and_recorded:
  assumes "ERROK X = 0"
  shows "(\<forall>c w' u'. ulcd_open_serial_device X w ulcd = Some (c, w', u') \<longrightarrow>
            reported X ulcd w' u' c) \<and>
         (\<forall>c w' u'. ulcd_send X w ulcd m data sz = Some (c, w', u') \<longrightarrow>
            reported X ulcd w' u' c) \<and>
         (\<forall>c w' u'. ulcd_recv_ack X w ulcd r0 = Some (c, w', u') \<longrightarrow>
            reported X ulcd w' u' c) \<and>
         (\<forall>c w' u'. ulcd_send_recv_ack X w ulcd m data sz r0 = Some (c, w', u') \<longrightarrow>
            reported X ulcd w' u' c) \<and>
         (\<forall>c w' u' m'.
            ulcd_send_recv_ack_data X w ulcd m data sz buffer datasize r0 = Some (c, w', u', m') \<longrightarrow>
            reported X ulcd w' u' c) \<and>
         (\<forall>c w' u' p'.
            ulcd_send_recv_ack_word X w ulcd m data sz param buffer r0 = Some (c, w', u', p') \<longrightarrow>
            recorded X ulcd w' u' c)"
proof (intro conjI allI impI)
  fix c w' u'
  assume "ulcd_open_serial_device X w ulcd = Some (c, w', u')"
  from ulcd_open_report [OF this] show "reported X ulcd w' u' c"
    by (auto simp: reported_def)
next
  fix c w' u'
  assume "ulcd_send X w ulcd m data sz = Some (c, w', u')"
  from ulcd_send_ok [OF this] show "reported X ulcd w' u' c"
    by (simp add: reported_def)
next
  fix c w' u'
  assume "ulcd_recv_ack X w ulcd r0 = Some (c, w', u')"
  from ulcd_recv_ack_report [OF this] show "reported X ulcd w' u' c"
    by (auto simp: reported_def)
next
  fix c w' u'
  assume "ulcd_send_recv_ack X w ulcd m data sz r0 = Some (c, w', u')"
  from ulcd_send_recv_ack_report [OF assms this] show "reported X ulcd w' u' c"
    by (auto simp: reported_def)
next
  fix c w' u' m'
  assume "ulcd_send_recv_ack_data X w ulcd m data sz buffer datasize r0 = Some (c, w', u', m')"
  from ulcd_send_recv_ack_data_report [OF assms this] show "reported X ulcd w' u' c"
    by (auto simp: reported_def)
next
  fix c w' u' p'
  assume "ulcd_send_recv_ack_word X w ulcd m data sz param buffer r0 = Some (c, w', u', p')"
  from ulcd_send_recv_ack_word_report [OF assms this] show "recorded X ulcd w' u' c"
    by (auto simp: recorded_def)
qed

text \<open>
  On the sample line all six functions return: the open fails with errno 2 and
  records it, the others succeed, and the word read is \<^verbatim>\<open>0x1234\<close>.
\<close>

theorem C4_codes_returned_and_recorded_witness:
  "ERROK ex_externals = 0 \<and>
   (case ulcd_open_serial_device ex_externals ex_line ex_ulcd of
      None \<Rightarrow> False
    | Some (c, w', u') \<Rightarrow> c = 2 \<and> error u' = 2 \<and> reported ex_externals ex_ulcd w' u' c) \<and>
   (case ulcd_send ex_externals ex_line ex_ulcd ex_mem 0 3 of
      None \<Rightarrow> False
    | Some (c, w', u') \<Rightarrow> c = 0 \<and> reported ex_externals ex_ulcd w' u' c) \<and>
   (case ulcd_recv_ack ex_externals ex_line ex_ulcd 0 of
      None \<Rightarrow> False
    | Some (c, w', u') \<Rightarrow> c = 0 \<and> reported ex_externals ex_ulcd w' u' c) \<and>
   (case ulcd_send_recv_ack ex_externals ex_line ex_ulcd ex_mem 0 3 0 of
      None \<Rightarrow> False
    | Some (c, w', u') \<Rightarrow> c = 0 \<and> reported ex_externals ex_ulcd w' u' c) \<and>
   (case ulcd_send_recv_ack_data ex_externals ex_line ex_ulcd ex_mem 0 3 100 2 0 of
      None \<Rightarrow> False
    | Some (c, w', u', m') \<Rightarrow> c = 0 \<and> reported ex_externals ex_ulcd w' u' c) \<and>
   (case ulcd_send_recv_ack_word ex_externals ex_line ex_ulcd ex_mem 0 3 (Some 0) 100 0 of
      None \<Rightarrow> False
    | Some (c, w', u', p') \<Rightarrow> c = 0 \<and> p' = Some 0x1234 \<and> recorded ex_externals ex_ulcd w' u' c)"
proof -
  have ok: "ERROK ex_externals = 0"
    by (simp add: ex_externals_def)
  have 1: "map_option (\<lambda>(c, w', u'). (c, error u'))
             (ulcd_open_serial_device ex_externals ex_line ex_ulcd) = Some (2, 2)"
    by code_simp
  have 2: "map_option fst (ulcd_send ex_externals ex_line ex_ulcd ex_mem 0 3) = Some 0"
    by code_simp
  have 3: "map_option fst (ulcd_recv_ack ex_externals ex_line ex_ulcd 0) = Some 0"
    by code_simp
  have 4: "map_option fst (ulcd_send_recv_ack ex_externals ex_line ex_ulcd ex_mem 0 3 0) = Some 0"
    by code_simp
  have 5: "map_option fst
             (ulcd_send_recv_ack_data ex_externals ex_line ex_ulcd ex_mem 0 3 100 2 0) = Some 0"
    by code_simp
  have 6: "map_option (\<lambda>(c, w', u', p'). (c, p'))
             (ulcd_send_recv_ack_word ex_externals ex_line ex_ulcd ex_mem 0 3 (Some 0) 100 0) =
             Some (0, Some 0x1234)"
    by code_simp
  show ?thesis
    using C4_codes_returned_and_recorded [OF ok, where w = ex_line and ulcd = ex_ulcd and m = ex_mem
        and data = 0 and sz = 3 and ?r0.0 = 0 and buffer = 100 and datasize = 2 and param = "Some 0"]
      ok 1 2 3 4 5 6
    by (auto split: option.splits)
qed

text \<open>
  Two runs against the claim as stated. A handle that holds \<^verbatim>\<open>ERRNAK\<close> from an earlier
  exchange still holds it, with its message, after \<open>ulcd_recv_ack\<close> has returned
  \<^verbatim>\<open>ERROK\<close> for an ACK: the code returned is not set on the handle. And after a NAK,
  \<open>ulcd_send_recv_ack_word\<close> returns \<open>-1\<close>, which (for the sample values of the macros)
  is none of \<^verbatim>\<open>ERROK\<close>, \<^verbatim>\<open>ERRNAK\<close>, \<^verbatim>\<open>ERRUNKNOWN\<close> and \<^verbatim>\<open>errno\<close>, while the handle holds
  \<^verbatim>\<open>ERRNAK\<close>.
\<close>

theorem C4_stale_code_counterexample:
  "ulcd_recv_ack ex_externals (ex_world\<lparr>reads := [Gives 1], pending := [ACK]\<rparr>)
     (ex_ulcd\<lparr>error := ERRNAK ex_externals, err := ''Device sent NAK instead of ACK''\<rparr>) 0 =
     Some (ERROK ex_externals, ex_world,
           ex_ulcd\<lparr>error := ERRNAK ex_externals, err := ''Device sent NAK instead of ACK''\<rparr>) \<and>
   ERRNAK ex_externals \<noteq> ERROK ex_externals \<and>
   ulcd_send_recv_ack_word ex_externals
     (ex_world\<lparr>writes := [Gives 3], reads := [Gives 1], pending := [NAK]\<rparr>) ex_ulcd ex_mem 0 3
     (Some 0) 100 0 =
     Some (- 1, ex_world\<lparr>wire := [0x10, 0x20, 0x30]\<rparr>,
           ex_ulcd\<lparr>error := ERRNAK ex_externals, err := ''Device sent NAK instead of ACK''\<rparr>,
           Some 0) \<and>
   - 1 \<noteq> ERROK ex_externals \<and> - 1 \<noteq> ERRNAK ex_externals \<and> - 1 \<noteq> ERRUNKNOWN ex_externals \<and>
   - 1 \<noteq> errno (ex_world\<lparr>wire := [0x10, 0x20, 0x30]\<rparr>)"
  by code_simp

end
